theory Spec2Isabelle
  imports Main
begin

section \<open>Python values\<close>

text \<open>
  A Python \<open>str\<close> is modelled as a list of code points below 256 (Latin-1), one
  \<^typ>\<open>char\<close> each. \<open>str.strip()\<close> removes from both ends the characters for
  which \<open>str.isspace\<close> holds; below 256 these are the code points 9 to 13, 28 to 32,
  133 and 160. \<open>str.lower()\<close> maps \<open>A\<close>..\<open>Z\<close> and the code points 192..222 other
  than 215 to the code point 32 above, and leaves every other code point below 256 as it is.
\<close>

definition isspace :: "char \<Rightarrow> bool" where
  "isspace c =
     (let n = (of_char c :: nat)
      in (9 \<le> n \<and> n \<le> 13) \<or> (28 \<le> n \<and> n \<le> 32) \<or> n = 133 \<or> n = 160)"

definition isupper :: "char \<Rightarrow> bool" where
  "isupper c =
     (let n = (of_char c :: nat)
      in (65 \<le> n \<and> n \<le> 90) \<or> (192 \<le> n \<and> n \<le> 222 \<and> n \<noteq> 215))"

definition lower_char :: "char \<Rightarrow> char" where
  "lower_char c = (if isupper c then char_of ((of_char c :: nat) + 32) else c)"

definition lower :: "string \<Rightarrow> string" where
  "lower s = map lower_char s"

definition lstrip :: "string \<Rightarrow> string" where
  "lstrip s = dropWhile isspace s"

definition rstrip :: "string \<Rightarrow> string" where
  "rstrip s = rev (dropWhile isspace (rev s))"

definition strip :: "string \<Rightarrow> string" where
  "strip s = rstrip (lstrip s)"

text \<open>
  The objects that travel through the analyzer are JSON-like: strings, lists, and
  dictionaries with string keys. A dictionary keeps its insertion order, so it is an
  association list; \<open>d[k]\<close> raises \<open>KeyError\<close> on a missing key.
\<close>

datatype json = JStr string | JList "json list" | JDict "(string \<times> json) list"

type_synonym dict = "(string \<times> json) list"

datatype exn =
    KeyError string
  | IndexError
  | AttributeError string
  | RuntimeError string
  | EOFError
  | CollaboratorError string

definition getitem :: "dict \<Rightarrow> string \<Rightarrow> exn + json" where
  "getitem d k = (case map_of d k of None \<Rightarrow> Inl (KeyError k) | Some v \<Rightarrow> Inr v)"

definition bind_exn :: "exn + 'a \<Rightarrow> ('a \<Rightarrow> exn + 'b) \<Rightarrow> exn + 'b" where
  "bind_exn m f = (case m of Inl e \<Rightarrow> Inl e | Inr v \<Rightarrow> f v)"

section \<open>analyzer.py\<close>

text \<open>
  The pydantic models \<open>Skill\<close> and \<open>SkillGap\<close>: what the structured completion returns.
  (The selector of \<open>SkillGap.skill_name\<close> is \<open>gap_skill_name\<close>, the name
  \<open>skill_name\<close> being taken by \<open>Skill\<close>.)
\<close>

datatype Skill = Skill (skill_name: string) (proficiency_level: string)

datatype SkillGap =
  SkillGap (gap_skill_name: string) (current_level: string) (required_level: string)

text \<open>
  The collaborators are parameters: \<open>json_dumps indent obj\<close> is \<open>json.dumps(obj,
  indent=indent)\<close>, and \<open>invoke content\<close> is
  \<open>self.llm.with_structured_output(...).invoke([HumanMessage(content)])\<close> followed by
  \<open>.skills\<close>, which either raises or returns the list of extracted objects.
\<close>

definition requirements_prompt :: "string \<Rightarrow> string" where
  "requirements_prompt description =
     ''Based on the following job description:\<newline>'' @ description @ ''\<newline>\<newline>''
     @ ''Identify the required skills and their required proficiency levels. ''
     @ ''For each skill, provide:\<newline>''
     @ ''- skill_name: The name of the skill\<newline>''
     @ ''- proficiency_level: beginner/intermediate/advanced/expert\<newline>''"

definition skill_dict :: "Skill \<Rightarrow> json" where
  "skill_dict skill =
     JDict [(''skill_name'', JStr (lower (strip (skill_name skill)))),
            (''proficiency_level'', JStr (lower (strip (proficiency_level skill))))]"

definition get_requirements :: "(string \<Rightarrow> exn + Skill list) \<Rightarrow> string \<Rightarrow> exn + json list" where
  "get_requirements invoke description =
     (case invoke (requirements_prompt description) of
        Inl e \<Rightarrow> Inl e
      | Inr skills \<Rightarrow> Inr (map skill_dict skills))"

definition gaps_prompt :: "string \<Rightarrow> string \<Rightarrow> string" where
  "gaps_prompt profile_json required_json =
     ''User's current profile: '' @ profile_json @ ''\<newline>''
     @ ''Required skills for the job: '' @ required_json @ ''\<newline>\<newline>''
     @ ''Compare the user's current skills with the job requirements and identify skill gaps. ''
     @ ''For each gap, provide:\<newline>''
     @ ''- skill_name: The name of the skill\<newline>''
     @ ''- current_level: User's current proficiency beginner/intermediate/advanced/expert\<newline>''
     @ ''- required_level: Required proficiency level beginner/intermediate/advanced/expert\<newline>''"

definition gap_dict :: "SkillGap \<Rightarrow> json" where
  "gap_dict gap =
     JDict [(''skill_name'', JStr (lower (strip (gap_skill_name gap)))),
            (''current_level'', JStr (lower (strip (current_level gap)))),
            (''required_level'', JStr (lower (strip (required_level gap))))]"

definition get_gaps ::
  "(nat \<Rightarrow> json \<Rightarrow> string) \<Rightarrow> (string \<Rightarrow> exn + SkillGap list) \<Rightarrow> dict \<Rightarrow> json list
     \<Rightarrow> exn + json list" where
  "get_gaps json_dumps invoke user_profile required_skills =
     bind_exn (getitem user_profile ''skills'') (\<lambda>skills.
       case invoke (gaps_prompt (json_dumps 2 skills) (json_dumps 2 (JList required_skills))) of
         Inl e \<Rightarrow> Inl e
       | Inr gaps \<Rightarrow> Inr (map gap_dict gaps))"

text \<open>\<open>now\<close> is \<open>datetime.now().strftime("%Y-%m-%d %H:%M:%S")\<close> at the call.\<close>

definition generate_report :: "string \<Rightarrow> dict \<Rightarrow> dict \<Rightarrow> json list \<Rightarrow> json list \<Rightarrow> exn + dict" where
  "generate_report now user_profile job_details skill_requirements skill_gaps =
     bind_exn (getitem user_profile ''user_name'') (\<lambda>user_name.
     bind_exn (getitem user_profile ''skills'') (\<lambda>user_skills.
     bind_exn (getitem user_profile ''profile_summary'') (\<lambda>profile_summary.
     bind_exn (getitem job_details ''job_role'') (\<lambda>job_role.
     bind_exn (getitem job_details ''job_location'') (\<lambda>job_location.
     bind_exn (getitem job_details ''company_name'') (\<lambda>company_name.
     bind_exn (getitem job_details ''description_summary'') (\<lambda>description_summary.
       Inr [(''timestamp'', JStr now),
            (''user_name'', user_name),
            (''user_skills'', user_skills),
            (''user_profile_summary'', profile_summary),
            (''job_role'', job_role),
            (''job_location'', job_location),
            (''company_name'', company_name),
            (''description_summary'', description_summary),
            (''required_skills'', JList skill_requirements),
            (''skill_gaps'', JList skill_gaps)])))))))"

section \<open>teacher.py\<close>

text \<open>
  Modelled from the spec: the module \<open>enums\<close> that declares \<open>Proficiency\<close> is missing
  from the sources. The spec gives the five levels
  \<open>none < beginner < intermediate < advanced < expert\<close>, recognised by their lower-case
  names.
\<close>

datatype Proficiency = NoProficiency | Beginner | Intermediate | Advanced | Expert

fun Proficiency_value :: "Proficiency \<Rightarrow> string" where
  "Proficiency_value NoProficiency = ''none''"
| "Proficiency_value Beginner = ''beginner''"
| "Proficiency_value Intermediate = ''intermediate''"
| "Proficiency_value Advanced = ''advanced''"
| "Proficiency_value Expert = ''expert''"

text \<open>
  The langchain messages. \<open>OtherMessage role content\<close> is any message that is none of
  the three classes \<open>save_history\<close> tests for; its \<open>role\<close> is what
  \<open>getattr(msg, "role", "unknown")\<close> yields.
\<close>

datatype AnyMessage =
    HumanMessage (content: string)
  | AIMessage (content: string)
  | SystemMessage (content: string)
  | OtherMessage (other_role: string) (content: string)

text \<open>
  What the program does to the outside is recorded as a trace of events; what the outside
  answers is a parameter of each operation.
\<close>

datatype event =
    WebFetch string
  | Completion "AnyMessage list"
  | Print string
  | UpdateInfo

text \<open>
  \<open>__init__\<close> only annotates the attributes \<open>user_name\<close> ... \<open>chat_history\<close>;
  \<open>get_history\<close> sets all of them when \<open>history.json\<close> exists and none otherwise
  (when it raises, no \<open>Teacher\<close> exists). \<open>attrs = None\<close> is the object whose
  attributes are unset: reading one raises \<open>AttributeError\<close>.
\<close>

record Attrs =
  user_name :: string
  job_role :: string
  job_proficiency :: Proficiency
  teaching_skill :: string
  teaching_proficiency :: Proficiency
  chat_history :: "AnyMessage list"

record Teacher =
  session_timestamp :: string
  attrs :: "Attrs option"
  chat_init :: bool

text \<open>
  The world of a \<open>Teacher\<close>: the content of the file \<open>history.json\<close> (\<open>None\<close> when
  the file does not exist) and the trace of calls made so far.
\<close>

record World =
  history_json :: "string option"
  trace :: "event list"

text \<open>The \<open>config\<close> dictionary handed to the agent with every call.\<close>

datatype Config =
  Config (thread_id: string) string string Proficiency string Proficiency string

definition make_config :: "Teacher \<Rightarrow> Attrs \<Rightarrow> Config" where
  "make_config t a =
     Config ''1'' (user_name a) (job_role a) (job_proficiency a) (teaching_skill a)
       (teaching_proficiency a) (session_timestamp t)"

definition role_of :: "AnyMessage \<Rightarrow> string" where
  "role_of msg =
     (case msg of
        HumanMessage _ \<Rightarrow> ''user''
      | AIMessage _ \<Rightarrow> ''assistant''
      | SystemMessage _ \<Rightarrow> ''system''
      | OtherMessage r _ \<Rightarrow> r)"

text \<open>\<open>clock i\<close> is what the \<open>i\<close>-th call of \<open>datetime.now()\<close> in the loop formats to.\<close>

definition serialized_chat :: "(nat \<Rightarrow> string) \<Rightarrow> AnyMessage list \<Rightarrow> json list" where
  "serialized_chat clock msgs =
     map (\<lambda>(i, msg). JDict [(''role'', JStr (role_of msg)),
                              (''message'', JStr (content msg)),
                              (''timestamp'', JStr (clock i))])
         (enumerate 0 msgs)"

definition history_data :: "(nat \<Rightarrow> string) \<Rightarrow> Teacher \<Rightarrow> Attrs \<Rightarrow> json" where
  "history_data clock t a =
     JDict [(''timestamp'', JStr (session_timestamp t)),
            (''user_name'', JStr (user_name a)),
            (''job_role'', JStr (job_role a)),
            (''job_proficiency'', JStr (Proficiency_value (job_proficiency a))),
            (''teaching_skill'', JStr (teaching_skill a)),
            (''teaching_proficiency'', JStr (Proficiency_value (teaching_proficiency a))),
            (''chat_history'', JList (serialized_chat clock (chat_history a)))]"

text \<open>
  \<open>open("history.json", "w")\<close> creates the file or truncates it to length zero, at
  once; \<open>json.dump\<close> then writes the text into that same file.
\<close>

definition open_w :: "string option \<Rightarrow> string option" where
  "open_w file = Some []"

definition file_write :: "string \<Rightarrow> string option \<Rightarrow> string option" where
  "file_write s file = map_option (\<lambda>c. c @ s) file"

text \<open>
  The successive contents of \<open>history.json\<close> during one \<open>save_history\<close>: after the
  \<open>open\<close>, and after the \<open>json.dump\<close>.
\<close>

definition save_history_steps ::
  "(nat \<Rightarrow> string) \<Rightarrow> (nat \<Rightarrow> json \<Rightarrow> string) \<Rightarrow> Teacher \<Rightarrow> string option
     \<Rightarrow> exn + string option list" where
  "save_history_steps clock json_dumps t file =
     (case attrs t of
        None \<Rightarrow> Inl (AttributeError ''chat_history'')
      | Some a \<Rightarrow>
          (let data = history_data clock t a;
               opened = open_w file
           in Inr [opened, file_write (json_dumps 4 data) opened]))"

definition save_history ::
  "(nat \<Rightarrow> string) \<Rightarrow> (nat \<Rightarrow> json \<Rightarrow> string) \<Rightarrow> Teacher \<Rightarrow> World \<Rightarrow> (exn + unit) \<times> World" where
  "save_history clock json_dumps t w =
     (case save_history_steps clock json_dumps t (history_json w) of
        Inl e \<Rightarrow> (Inl e, w)
      | Inr steps \<Rightarrow> (Inr (), w\<lparr>history_json := last steps\<rparr>))"

text \<open>
  \<open>agent config messages\<close> is \<open>self.agent.invoke({"messages": messages},
  config)["messages"]\<close>: it raises, or returns the messages of the run.
\<close>

definition last_message :: "AnyMessage list \<Rightarrow> exn + AnyMessage" where
  "last_message msgs = (case msgs of [] \<Rightarrow> Inl IndexError | _ \<Rightarrow> Inr (last msgs))"

definition init_chat ::
  "(nat \<Rightarrow> string) \<Rightarrow> (nat \<Rightarrow> json \<Rightarrow> string) \<Rightarrow> (Config \<Rightarrow> AnyMessage list \<Rightarrow> exn + AnyMessage list)
     \<Rightarrow> string \<Rightarrow> Teacher \<Rightarrow> World \<Rightarrow> (exn + string) \<times> Teacher \<times> World" where
  "init_chat clock json_dumps agent message t w =
     (case attrs t of
        None \<Rightarrow> (Inl (AttributeError ''user_name''), t, w)
      | Some a \<Rightarrow>
          (let config = make_config t a;
               message' = HumanMessage message;
               all_messages = chat_history a @ [message'];
               w1 = w\<lparr>trace := trace w @ [Completion all_messages]\<rparr>
           in case bind_exn (agent config all_messages) last_message of
                Inl e \<Rightarrow> (Inl e, t, w1)
              | Inr assistant_reply \<Rightarrow>
                  (let t1 = t\<lparr>attrs := Some (a\<lparr>chat_history :=
                                  chat_history a @ [message', assistant_reply]\<rparr>)\<rparr>
                   in case save_history clock json_dumps t1 w1 of
                        (Inl e, w2) \<Rightarrow> (Inl e, t1, w2)
                      | (Inr _, w2) \<Rightarrow>
                          (Inr (content assistant_reply), t1\<lparr>chat_init := True\<rparr>, w2))))"

definition chat ::
  "(nat \<Rightarrow> string) \<Rightarrow> (nat \<Rightarrow> json \<Rightarrow> string) \<Rightarrow> (Config \<Rightarrow> AnyMessage list \<Rightarrow> exn + AnyMessage list)
     \<Rightarrow> string \<Rightarrow> Teacher \<Rightarrow> World \<Rightarrow> (exn + string) \<times> Teacher \<times> World" where
  "chat clock json_dumps agent message t w =
     (if chat_init t then
        (case attrs t of
           None \<Rightarrow> (Inl (AttributeError ''user_name''), t, w)
         | Some a \<Rightarrow>
             (let config = make_config t a;
                  user_message = HumanMessage message;
                  w1 = w\<lparr>trace := trace w @ [Completion [user_message]]\<rparr>
              in case bind_exn (agent config [user_message]) last_message of
                   Inl e \<Rightarrow> (Inl e, t, w1)
                 | Inr assistant_reply \<Rightarrow>
                     (let t1 = t\<lparr>attrs := Some (a\<lparr>chat_history :=
                                     chat_history a @ [user_message, assistant_reply]\<rparr>)\<rparr>
                      in case save_history clock json_dumps t1 w1 of
                           (Inl e, w2) \<Rightarrow> (Inl e, t1, w2)
                         | (Inr _, w2) \<Rightarrow> (Inr (content assistant_reply), t1, w2))))
      else (Inl (RuntimeError ''Init chat model first''), t, w))"

section \<open>learning.py\<close>

text \<open>
  \<open>current_skill\<close> is \<open>None\<close> until \<open>asks_what_to_learn\<close> has set it; an f-string
  renders \<open>None\<close> as the text \<open>None\<close>.
\<close>

record LearningPlatform =
  report :: dict
  turn_count :: int
  current_skill :: "string option"

definition skill_text :: "LearningPlatform \<Rightarrow> string" where
  "skill_text lp = (case current_skill lp of None \<Rightarrow> ''None'' | Some s \<Rightarrow> s)"

definition no_context :: string where
  "no_context = ''No external context available right now.''"

text \<open>
  \<open>http_get query\<close> is \<open>requests.get("https://duckduckgo.com/html/", params={"q":
  query}, ...).text\<close>: it raises an \<open>Exception\<close> (no connection, timeout, ...) or
  returns the text of the page.
\<close>

definition fetch_web_context :: "(string \<Rightarrow> exn + string) \<Rightarrow> string \<Rightarrow> string" where
  "fetch_web_context http_get query =
     (case http_get query of
        Inr text \<Rightarrow> take 1500 text
      | Inl _ \<Rightarrow> no_context)"

definition sys_prompt :: "string \<Rightarrow> string \<Rightarrow> string" where
  "sys_prompt skill context =
     ''You are a strict but helpful tutor. ''
     @ ''The student is learning '' @ [CHR 0x27] @ skill @ [CHR 0x27] @ ''. ''
     @ ''Use the context below + conversation to explain clearly. ''
     @ ''Ask questions, give examples, and test the student often. ''
     @ ''Be assertive and structured.\<newline>\<newline>''
     @ ''Web Context:\<newline>'' @ context"

text \<open>
  \<open>llm messages\<close> is \<open>self.llm(messages)\<close>: it raises or returns the reply message.
  \<open>tutor_reply\<close> returns its result together with the calls it made, in order.
\<close>

definition tutor_reply ::
  "(string \<Rightarrow> exn + string) \<Rightarrow> (AnyMessage list \<Rightarrow> exn + AnyMessage) \<Rightarrow> LearningPlatform
     \<Rightarrow> string \<Rightarrow> bool \<Rightarrow> (exn + string) \<times> event list" where
  "tutor_reply http_get llm lp user_input intro =
     (let query = skill_text lp @ '' '' @ user_input;
          context = fetch_web_context http_get query;
          user_msg = (if intro
                      then ''Introduce '' @ skill_text lp @ '' and ask me a first warm-up question.''
                      else user_input);
          messages = [SystemMessage (sys_prompt (skill_text lp) context), HumanMessage user_msg]
      in (case llm messages of
            Inl e \<Rightarrow> Inl e
          | Inr response \<Rightarrow> Inr (content response),
          [WebFetch query, Completion messages]))"

text \<open>
  The \<open>while True\<close> loop of \<open>run\<close>. \<open>inputs\<close> are the lines that \<open>input("You: ")\<close>
  will return; at the end of the input it raises \<open>EOFError\<close>. The result carries the
  events of each iteration, one list for each; \<open>UpdateInfo\<close> stands for the call of
  \<open>update_info\<close>, which prints its notice.
\<close>

fun run_loop ::
  "(string \<Rightarrow> exn + string) \<Rightarrow> (AnyMessage list \<Rightarrow> exn + AnyMessage) \<Rightarrow> LearningPlatform
     \<Rightarrow> string list \<Rightarrow> (exn + unit) \<times> LearningPlatform \<times> event list list" where
  "run_loop http_get llm lp [] = (Inl EOFError, lp, [])"
| "run_loop http_get llm lp (user_input # inputs) =
     (if strip (lower user_input) = ''exit''
      then (Inr (), lp, [[Print ''Tutor: Good session. Go practice and come back later.'']])
      else
        (case tutor_reply http_get llm lp user_input False of
           (Inl e, evs) \<Rightarrow> (Inl e, lp, [evs])
         | (Inr reply, evs) \<Rightarrow>
             (let lp' = lp\<lparr>turn_count := turn_count lp + 1\<rparr>;
                  evs' = evs @ [Print (''Tutor: '' @ reply @ ''\<newline>'')]
                         @ (if turn_count lp' mod 5 = 0 then [UpdateInfo] else [])
              in case run_loop http_get llm lp' inputs of
                   (r, lp'', rest) \<Rightarrow> (r, lp'', evs' # rest))))"

section \<open>Reading reports and skill records\<close>

text \<open>
  What a consumer of a report reads: the entries of \<open>skill_gaps\<close>, whether an entry
  has a given field, and the \<open>skill_name\<close> of a record.
\<close>

definition skill_gaps_of :: "dict \<Rightarrow> json list" where
  "skill_gaps_of rep = (case map_of rep ''skill_gaps'' of Some (JList gaps) \<Rightarrow> gaps | _ \<Rightarrow> [])"

definition has_key :: "string \<Rightarrow> json \<Rightarrow> bool" where
  "has_key k j = (case j of JDict d \<Rightarrow> map_of d k \<noteq> None | _ \<Rightarrow> False)"

definition name_of :: "json \<Rightarrow> string" where
  "name_of j = (case j of JDict d \<Rightarrow> (case map_of d ''skill_name'' of Some (JStr s) \<Rightarrow> s | _ \<Rightarrow> [])
                | _ \<Rightarrow> [])"

section \<open>Concrete collaborators and inputs\<close>

text \<open>
  A serializer for the examples: it ignores the indentation and escapes nothing. The
  theorems below hold for every serializer.
\<close>

fun render :: "json \<Rightarrow> string" where
  "render (JStr s) = [CHR 0x22] @ s @ [CHR 0x22]"
| "render (JList xs) = ''['' @ concat (map (\<lambda>x. render x @ '','') xs) @ '']''"
| "render (JDict kvs) =
     ''{'' @ concat (map (\<lambda>kv. [CHR 0x22] @ fst kv @ [CHR 0x22] @ '': '' @ render (snd kv) @ '','') kvs)
     @ ''}''"

definition compact_dumps :: "nat \<Rightarrow> json \<Rightarrow> string" where
  "compact_dumps indent obj = render obj"

definition skill_record :: "string \<Rightarrow> string \<Rightarrow> json" where
  "skill_record name level = JDict [(''skill_name'', JStr name), (''proficiency_level'', JStr level)]"

definition python_profile :: dict where
  "python_profile =
     [(''user_name'', JStr ''Ada''),
      (''skills'', JList [skill_record ''python'' ''advanced'']),
      (''profile_summary'', JStr ''Engineer.'')]"

definition python_required :: "json list" where
  "python_required = [skill_record ''python'' ''advanced'']"

definition docker_rust_required :: "json list" where
  "docker_rust_required = [skill_record ''docker'' ''intermediate'', skill_record ''rust'' ''expert'']"

definition some_job :: dict where
  "some_job =
     [(''job_role'', JStr ''Engineer''),
      (''company_name'', JStr ''Acme''),
      (''job_location'', JStr ''Lagos''),
      (''description_summary'', JStr ''Builds things.'')]"

text \<open>Completion services: what the model may answer, whatever the prompt.\<close>

definition tie_invoke :: "string \<Rightarrow> exn + SkillGap list" where
  "tie_invoke prompt =
     Inr [SkillGap ''Python'' ''advanced'' ''advanced'', SkillGap ''cobol'' ''expert'' ''beginner'']"

definition silent_invoke :: "string \<Rightarrow> exn + SkillGap list" where
  "silent_invoke prompt = Inr []"

definition reversed_invoke :: "string \<Rightarrow> exn + SkillGap list" where
  "reversed_invoke prompt =
     Inr [SkillGap ''rust'' ''beginner'' ''expert'', SkillGap ''docker'' ''beginner'' ''intermediate'']"

definition expert_invoke :: "string \<Rightarrow> exn + SkillGap list" where
  "expert_invoke prompt = Inr [SkillGap ''rust'' ''beginner'' ''expert'']"

definition guarded_invoke :: "string \<Rightarrow> exn + SkillGap list" where
  "guarded_invoke prompt = (if prompt = [] then Inr [] else reversed_invoke prompt)"

definition duplicate_invoke :: "string \<Rightarrow> exn + Skill list" where
  "duplicate_invoke prompt = Inr [Skill ''Python'' ''Expert'', Skill '' python '' ''beginner'']"

text \<open>A tutoring session on disk and in memory, and agents that answer or fail.\<close>

definition ada_attrs :: Attrs where
  "ada_attrs =
     \<lparr>user_name = ''Ada'', job_role = ''Engineer'', job_proficiency = Intermediate,
      teaching_skill = ''rust'', teaching_proficiency = Expert,
      chat_history = [HumanMessage ''Hi'', AIMessage ''Hello Ada'']\<rparr>"

definition ada_teacher :: "bool \<Rightarrow> Teacher" where
  "ada_teacher started =
     \<lparr>session_timestamp = ''2025-01-01 10:00:00'', attrs = Some ada_attrs, chat_init = started\<rparr>"

definition old_world :: World where
  "old_world = \<lparr>history_json = Some ''{old session}'', trace = []\<rparr>"

definition noon :: "nat \<Rightarrow> string" where
  "noon i = ''2025-01-01 12:00:00''"


definition down_agent :: "Config \<Rightarrow> AnyMessage list \<Rightarrow> exn + AnyMessage list" where
  "down_agent config messages = Inl (CollaboratorError ''ServiceUnavailable'')"

definition python_platform :: LearningPlatform where
  "python_platform = \<lparr>report = [], turn_count = 0, current_skill = Some ''python''\<rparr>"

definition page_get :: "string \<Rightarrow> exn + string" where
  "page_get query = Inr ''<html>results</html>''"


definition ok_llm :: "AnyMessage list \<Rightarrow> exn + AnyMessage" where
  "ok_llm messages = Inr (AIMessage ''Good. Next question.'')"

definition down_llm :: "AnyMessage list \<Rightarrow> exn + AnyMessage" where
  "down_llm messages = Inl (CollaboratorError ''ServiceUnavailable'')"

definition twelve_turns :: "string list" where
  "twelve_turns = replicate 12 ''ok''"


section \<open>Facts about strings and results\<close>

lemma bind_exn_Inl: "bind_exn (Inl e) f = Inl e"
  by (simp add: bind_exn_def)

lemma bind_exn_Inr: "bind_exn (Inr v) f = f v"
  by (simp add: bind_exn_def)

lemma lower_char_not_upper: "\<not> isupper (lower_char c)"
  unfolding lower_char_def isupper_def Let_def
  by (auto simp: of_char_of)

lemma isspace_lower_char: "isspace (lower_char c) = isspace c"
  unfolding lower_char_def isupper_def isspace_def Let_def
  by (auto simp: of_char_of)

lemma lower_idem: "lower (lower s) = lower s"
  unfolding lower_def using lower_char_not_upper by (simp add: lower_char_def)

lemma dropWhile_isspace_lower: "dropWhile isspace (lower s) = lower (dropWhile isspace s)"
  unfolding lower_def by (induction s) (simp_all add: isspace_lower_char)

lemma strip_lower: "strip (lower s) = lower (strip s)"
  unfolding strip_def lstrip_def rstrip_def
  using dropWhile_isspace_lower[of "rev (dropWhile isspace s)"] dropWhile_isspace_lower[of s]
  by (simp add: lower_def rev_map)

lemma rstrip_prefix: "\<exists>r. s = rstrip s @ r"
proof -
  have "rev s = takeWhile isspace (rev s) @ dropWhile isspace (rev s)" by simp
  then have "rev (rev s) = rev (takeWhile isspace (rev s) @ dropWhile isspace (rev s))"
    by simp
  then have "s = rstrip s @ rev (takeWhile isspace (rev s))"
    unfolding rstrip_def by (simp only: rev_rev_ident rev_append)
  then show ?thesis ..
qed

lemma lstrip_rstrip_lstrip: "lstrip (rstrip (lstrip s)) = rstrip (lstrip s)"
proof (cases "rstrip (lstrip s) = []")
  case True
  then show ?thesis by (simp add: lstrip_def)
next
  case False
  obtain r where r: "lstrip s = rstrip (lstrip s) @ r" using rstrip_prefix by blast
  from False r have ne: "lstrip s \<noteq> []" by auto
  from False r have "hd (rstrip (lstrip s)) = hd (lstrip s)" by (metis hd_append2)
  moreover from ne have "\<not> isspace (hd (lstrip s))"
    unfolding lstrip_def by (rule hd_dropWhile)
  ultimately show ?thesis
    unfolding lstrip_def[of "rstrip _"] by (simp add: dropWhile_eq_self_iff)
qed

lemma rstrip_idem: "rstrip (rstrip s) = rstrip s"
  unfolding rstrip_def by (simp add: dropWhile_idem)

lemma strip_idem: "strip (strip s) = strip s"
  unfolding strip_def by (simp add: lstrip_rstrip_lstrip rstrip_idem)

lemma canonical_idem: "lower (strip (lower (strip s))) = lower (strip s)"
  by (simp add: strip_lower strip_idem lower_idem)

lemma name_of_gap_dict: "name_of (gap_dict g) = lower (strip (gap_skill_name g))"
  by (simp add: name_of_def gap_dict_def)

lemma name_of_skill_dict: "name_of (skill_dict s) = lower (strip (skill_name s))"
  by (simp add: name_of_def skill_dict_def)

lemma get_gaps_response:
  assumes "getitem user_profile ''skills'' = Inr skills"
    and "invoke (gaps_prompt (json_dumps 2 skills) (json_dumps 2 (JList required_skills))) = Inr gaps"
  shows "get_gaps json_dumps invoke user_profile required_skills = Inr (map gap_dict gaps)"
  using assms by (simp add: get_gaps_def bind_exn_def)

lemma getitem_python_profile:
  "getitem python_profile ''skills'' = Inr (JList [skill_record ''python'' ''advanced''])"
  by (simp add: getitem_def python_profile_def)

lemma gap_dict_python: "gap_dict (SkillGap ''Python'' ''advanced'' ''advanced'') =
    JDict [(''skill_name'', JStr ''python''), (''current_level'', JStr ''advanced''),
           (''required_level'', JStr ''advanced'')]"
  by code_simp

lemma gap_dict_cobol: "gap_dict (SkillGap ''cobol'' ''expert'' ''beginner'') =
    JDict [(''skill_name'', JStr ''cobol''), (''current_level'', JStr ''expert''),
           (''required_level'', JStr ''beginner'')]"
  by code_simp

lemma gap_dict_rust: "gap_dict (SkillGap ''rust'' ''beginner'' ''expert'') =
    JDict [(''skill_name'', JStr ''rust''), (''current_level'', JStr ''beginner''),
           (''required_level'', JStr ''expert'')]"
  by code_simp

lemma gap_dict_docker: "gap_dict (SkillGap ''docker'' ''beginner'' ''intermediate'') =
    JDict [(''skill_name'', JStr ''docker''), (''current_level'', JStr ''beginner''),
           (''required_level'', JStr ''intermediate'')]"
  by code_simp

lemma get_gaps_tie:
  "get_gaps compact_dumps tie_invoke python_profile python_required =
     Inr [JDict [(''skill_name'', JStr ''python''), (''current_level'', JStr ''advanced''),
                 (''required_level'', JStr ''advanced'')],
          JDict [(''skill_name'', JStr ''cobol''), (''current_level'', JStr ''expert''),
                 (''required_level'', JStr ''beginner'')]]"
  by (simp add: get_gaps_response [OF getitem_python_profile] tie_invoke_def
      gap_dict_python gap_dict_cobol)

lemma get_gaps_silent:
  "get_gaps compact_dumps silent_invoke python_profile python_required = Inr []"
  by (simp add: get_gaps_response [OF getitem_python_profile] silent_invoke_def)

lemma get_gaps_reversed:
  "get_gaps compact_dumps reversed_invoke python_profile docker_rust_required =
     Inr [JDict [(''skill_name'', JStr ''rust''), (''current_level'', JStr ''beginner''),
                 (''required_level'', JStr ''expert'')],
          JDict [(''skill_name'', JStr ''docker''), (''current_level'', JStr ''beginner''),
                 (''required_level'', JStr ''intermediate'')]]"
  by (simp add: get_gaps_response [OF getitem_python_profile] reversed_invoke_def
      gap_dict_rust gap_dict_docker)

lemma get_gaps_expert:
  "get_gaps compact_dumps expert_invoke python_profile docker_rust_required =
     Inr [JDict [(''skill_name'', JStr ''rust''), (''current_level'', JStr ''beginner''),
                 (''required_level'', JStr ''expert'')]]"
  by (simp add: get_gaps_response [OF getitem_python_profile] expert_invoke_def gap_dict_rust)

section \<open>The gap computation\<close>

text \<open>
  C1, as the spec states it, fails: the candidate's list equals the required list
  (python, advanced), and the completion service answers with a gap for python at equal
  levels and a gap for cobol, which is not required and whose current level is above the
  required one. \<open>get_gaps\<close> returns both entries.
\<close>

theorem C1_counterexample:
  "get_gaps compact_dumps tie_invoke python_profile python_required =
     Inr [JDict [(''skill_name'', JStr ''python''), (''current_level'', JStr ''advanced''),
                 (''required_level'', JStr ''advanced'')],
          JDict [(''skill_name'', JStr ''cobol''), (''current_level'', JStr ''expert''),
                 (''required_level'', JStr ''beginner'')]]
   \<and> getitem python_profile ''skills'' = Inr (JList python_required)
   \<and> ''cobol'' \<notin> set (map name_of python_required)"
proof -
  have "getitem python_profile ''skills'' = Inr (JList python_required)"
    by (simp add: getitem_python_profile python_required_def)
  moreover have "''cobol'' \<notin> set (map name_of python_required)"
    by (simp add: python_required_def name_of_def skill_record_def)
  ultimately show ?thesis
    using get_gaps_tie by simp
qed

text \<open>
  C1 (amended): \<open>get_gaps\<close> emits one entry for every gap that the completion service
  returns for the prompt built from the two lists, with no test of the levels and no
  test of membership in the required list: the output is as long as the response, holds
  the normalised form of each of its gaps, and is empty exactly when the response is.
\<close>

theorem C1_get_gaps_emits_every_returned_gap:
  assumes "getitem user_profile ''skills'' = Inr skills"
    and "invoke (gaps_prompt (json_dumps 2 skills) (json_dumps 2 (JList required_skills))) = Inr gaps"
  shows "\<exists>out. get_gaps json_dumps invoke user_profile required_skills = Inr out
           \<and> length out = length gaps
           \<and> (\<forall>g \<in> set gaps. gap_dict g \<in> set out)
           \<and> (out = [] \<longleftrightarrow> gaps = [])"
  using assms by (simp add: get_gaps_def bind_exn_def)

theorem C1_witness:
  "\<exists>out. get_gaps compact_dumps tie_invoke python_profile python_required = Inr out
     \<and> length out = 2
     \<and> gap_dict (SkillGap ''cobol'' ''expert'' ''beginner'') \<in> set out
     \<and> out \<noteq> []"
  using C1_get_gaps_emits_every_returned_gap [OF getitem_python_profile,
      of tie_invoke compact_dumps python_required
         "[SkillGap ''Python'' ''advanced'' ''advanced'', SkillGap ''cobol'' ''expert'' ''beginner'']"]
  by (auto simp add: tie_invoke_def numeral_2_eq_2)

text \<open>
  C2, as the spec states it, fails: on the same two inputs, a completion service that
  reports gaps and one that reports none give different gap sequences.
\<close>

theorem C2_counterexample:
  "get_gaps compact_dumps tie_invoke python_profile python_required
     \<noteq> get_gaps compact_dumps silent_invoke python_profile python_required"
  by (simp add: get_gaps_tie get_gaps_silent)

text \<open>
  C2 (amended): the gap sequence is a function of the two inputs and of what the completion
  service answers to the prompt built from them: two runs on identical inputs give
  identical sequences, in content and order, whenever the service gives the same answer
  to that prompt.
\<close>

theorem C2_get_gaps_determined_by_response:
  assumes "getitem user_profile ''skills'' = Inr skills"
    and "invoke1 (gaps_prompt (json_dumps 2 skills) (json_dumps 2 (JList required_skills)))
         = invoke2 (gaps_prompt (json_dumps 2 skills) (json_dumps 2 (JList required_skills)))"
  shows "get_gaps json_dumps invoke1 user_profile required_skills
         = get_gaps json_dumps invoke2 user_profile required_skills"
  using assms by (simp add: get_gaps_def bind_exn_def)

theorem C2_witness:
  "get_gaps compact_dumps reversed_invoke python_profile docker_rust_required
   = get_gaps compact_dumps
       guarded_invoke python_profile docker_rust_required"
  using C2_get_gaps_determined_by_response [OF getitem_python_profile,
      of reversed_invoke compact_dumps docker_rust_required
         guarded_invoke]
  by (simp add: gaps_prompt_def guarded_invoke_def)

text \<open>
  C3, as the spec states it, fails: docker and rust are required, in this order, and the
  completion service lists the rust gap first. The output has rust first.
\<close>

theorem C3_counterexample:
  "map name_of docker_rust_required = [''docker'', ''rust'']
   \<and> map_sum id (map name_of)
        (get_gaps compact_dumps reversed_invoke python_profile docker_rust_required)
      = Inr [''rust'', ''docker'']"
proof -
  have "map name_of docker_rust_required = [''docker'', ''rust'']"
    by (simp add: docker_rust_required_def name_of_def skill_record_def)
  moreover have "map_sum id (map name_of)
        (get_gaps compact_dumps reversed_invoke python_profile docker_rust_required)
      = Inr [''rust'', ''docker'']"
    by (simp add: get_gaps_reversed name_of_def)
  ultimately show ?thesis by simp
qed

text \<open>
  C3 (amended): the output of \<open>get_gaps\<close> preserves the order of the completion
  service's response: its \<open>i\<close>-th entry is the normalised \<open>i\<close>-th gap of the
  response, and its skill names are the trimmed, lower-cased names of the response, in
  the same order. It never reorders the response.
\<close>

theorem C3_get_gaps_keeps_response_order:
  assumes "getitem user_profile ''skills'' = Inr skills"
    and "invoke (gaps_prompt (json_dumps 2 skills) (json_dumps 2 (JList required_skills))) = Inr gaps"
  shows "\<exists>out. get_gaps json_dumps invoke user_profile required_skills = Inr out
           \<and> (\<forall>i < length gaps. out ! i = gap_dict (gaps ! i))
           \<and> map name_of out = map (\<lambda>g. lower (strip (gap_skill_name g))) gaps"
  using assms by (simp add: get_gaps_def bind_exn_def name_of_gap_dict comp_def)

theorem C3_witness:
  "\<exists>out. get_gaps compact_dumps reversed_invoke python_profile docker_rust_required = Inr out
     \<and> out ! 0 = gap_dict (SkillGap ''rust'' ''beginner'' ''expert'')
     \<and> out ! 1 = gap_dict (SkillGap ''docker'' ''beginner'' ''intermediate'')"
  using C3_get_gaps_keeps_response_order [OF getitem_python_profile,
      of reversed_invoke compact_dumps docker_rust_required
         "[SkillGap ''rust'' ''beginner'' ''expert'', SkillGap ''docker'' ''beginner'' ''intermediate'']"]
  by (auto simp add: reversed_invoke_def numeral_2_eq_2 All_less_Suc)


section \<open>The report and the requirements\<close>

lemma generate_report_python:
  "generate_report now python_profile some_job reqs gaps =
     Inr [(''timestamp'', JStr now),
          (''user_name'', JStr ''Ada''),
          (''user_skills'', JList [skill_record ''python'' ''advanced'']),
          (''user_profile_summary'', JStr ''Engineer.''),
          (''job_role'', JStr ''Engineer''),
          (''job_location'', JStr ''Lagos''),
          (''company_name'', JStr ''Acme''),
          (''description_summary'', JStr ''Builds things.''),
          (''required_skills'', JList reqs),
          (''skill_gaps'', JList gaps)]"
  by (simp add: generate_report_def getitem_def bind_exn_def python_profile_def some_job_def)

text \<open>
  C4, as the spec states it, fails: the completion service reports a gap for rust from
  beginner to expert; \<open>get_gaps\<close> turns it into an entry with the three fields
  \<open>skill_name\<close>, \<open>current_level\<close> and \<open>required_level\<close>, and the report built from
  it by \<open>generate_report\<close> holds this very entry, which has no field \<open>gap_severity\<close>.
\<close>

theorem C4_counterexample:
  "get_gaps compact_dumps expert_invoke python_profile docker_rust_required =
     Inr [JDict [(''skill_name'', JStr ''rust''), (''current_level'', JStr ''beginner''),
                 (''required_level'', JStr ''expert'')]]
   \<and> map_sum id skill_gaps_of
        (generate_report ''2025-01-01 09:00:00'' python_profile some_job docker_rust_required
           [JDict [(''skill_name'', JStr ''rust''), (''current_level'', JStr ''beginner''),
                   (''required_level'', JStr ''expert'')]])
      = Inr [JDict [(''skill_name'', JStr ''rust''), (''current_level'', JStr ''beginner''),
                    (''required_level'', JStr ''expert'')]]
   \<and> \<not> has_key ''gap_severity''
         (JDict [(''skill_name'', JStr ''rust''), (''current_level'', JStr ''beginner''),
                 (''required_level'', JStr ''expert'')])"
  by (simp add: get_gaps_expert generate_report_python skill_gaps_of_def has_key_def)

text \<open>
  C4 (amended): the \<open>skill_gaps\<close> of the report produced by \<open>generate_report\<close> are
  the gap entries it was given, unchanged and in the same order (and likewise the
  \<open>required_skills\<close>): \<open>generate_report\<close> derives nothing from the distance between
  \<open>current_level\<close> and \<open>required_level\<close>.
\<close>

theorem C4_report_holds_the_given_gaps:
  assumes "generate_report now user_profile job_details skill_requirements skill_gaps = Inr rep"
  shows "skill_gaps_of rep = skill_gaps
         \<and> map_of rep ''required_skills'' = Some (JList skill_requirements)"
  using assms
  by (auto simp add: generate_report_def bind_exn_def skill_gaps_of_def split: sum.splits)

theorem C4_witness:
  "\<exists>rep. generate_report ''2025-01-01 09:00:00'' python_profile some_job docker_rust_required
            [gap_dict (SkillGap ''rust'' ''beginner'' ''expert'')] = Inr rep
     \<and> skill_gaps_of rep = [gap_dict (SkillGap ''rust'' ''beginner'' ''expert'')]"
  using C4_report_holds_the_given_gaps [OF generate_report_python,
      of "''2025-01-01 09:00:00''" docker_rust_required
         "[gap_dict (SkillGap ''rust'' ''beginner'' ''expert'')]"]
  by (simp add: generate_report_python)

text \<open>
  C5, as the spec states it, fails: the completion service extracts \<open>Python\<close> (expert)
  and \<open> python \<close> (beginner); \<open>get_requirements\<close> returns two records with the same
  canonical name \<open>python\<close>.
\<close>

theorem C5_counterexample:
  "get_requirements duplicate_invoke ''We need Python.'' =
     Inr [skill_record ''python'' ''expert'', skill_record ''python'' ''beginner'']
   \<and> map name_of [skill_record ''python'' ''expert'', skill_record ''python'' ''beginner'']
      = [''python'', ''python'']"
proof -
  have "skill_dict (Skill ''Python'' ''Expert'') = skill_record ''python'' ''expert''"
    by code_simp
  moreover have "skill_dict (Skill '' python '' ''beginner'') = skill_record ''python'' ''beginner''"
    by code_simp
  ultimately show ?thesis
    by (simp add: get_requirements_def duplicate_invoke_def name_of_def skill_record_def)
qed

text \<open>
  C5 (amended): for every list of raw skill records returned by the completion service,
  \<open>get_requirements\<close> returns one record for each raw record, in the same order, with
  name and level trimmed and lower-cased; the names it returns are canonical (trimming
  and lower-casing them again changes nothing). Records that share a canonical name are
  all kept.
\<close>

theorem C5_get_requirements_normalises_each_record:
  assumes "invoke (requirements_prompt description) = Inr skills"
  shows "\<exists>out. get_requirements invoke description = Inr out
           \<and> length out = length skills
           \<and> (\<forall>i < length skills. out ! i = skill_dict (skills ! i))
           \<and> (\<forall>r \<in> set out. lower (strip (name_of r)) = name_of r)"
  using assms
  by (auto simp add: get_requirements_def name_of_skill_dict canonical_idem)

theorem C5_witness:
  "\<exists>out. get_requirements duplicate_invoke ''We need Python.'' = Inr out
     \<and> length out = 2
     \<and> out ! 0 = skill_dict (Skill ''Python'' ''Expert'')
     \<and> out ! 1 = skill_dict (Skill '' python '' ''beginner'')"
  using C5_get_requirements_normalises_each_record
    [of duplicate_invoke "''We need Python.''"
        "[Skill ''Python'' ''Expert'', Skill '' python '' ''beginner'']"]
  by (auto simp add: duplicate_invoke_def numeral_2_eq_2 All_less_Suc)


section \<open>The tutoring loop\<close>

lemma tutor_reply_events:
  "snd (tutor_reply http_get llm lp user_input intro) =
     [WebFetch (skill_text lp @ '' '' @ user_input),
      Completion [SystemMessage (sys_prompt (skill_text lp)
                    (fetch_web_context http_get (skill_text lp @ '' '' @ user_input))),
                  HumanMessage (if intro
                    then ''Introduce '' @ skill_text lp @ '' and ask me a first warm-up question.''
                    else user_input)]]"
  by (simp add: tutor_reply_def Let_def)

lemma tutor_reply_result:
  "fst (tutor_reply http_get llm lp user_input intro) =
     map_sum id content
       (llm [SystemMessage (sys_prompt (skill_text lp)
               (fetch_web_context http_get (skill_text lp @ '' '' @ user_input))),
             HumanMessage (if intro
               then ''Introduce '' @ skill_text lp @ '' and ask me a first warm-up question.''
               else user_input)])"
  by (simp add: tutor_reply_def Let_def split: sum.splits)

lemma skill_text_turn_count [simp]: "skill_text (lp\<lparr>turn_count := n\<rparr>) = skill_text lp"
  by (simp add: skill_text_def)

lemma run_loop_turn:
  assumes "strip (lower user_input) \<noteq> ''exit''"
    and "fst (tutor_reply http_get llm lp user_input False) = Inr reply"
  shows "run_loop http_get llm lp (user_input # inputs) =
     (fst (run_loop http_get llm (lp\<lparr>turn_count := turn_count lp + 1\<rparr>) inputs),
      fst (snd (run_loop http_get llm (lp\<lparr>turn_count := turn_count lp + 1\<rparr>) inputs)),
      (snd (tutor_reply http_get llm lp user_input False)
         @ [Print (''Tutor: '' @ reply @ ''\<newline>'')]
         @ (if (turn_count lp + 1) mod 5 = 0 then [UpdateInfo] else []))
      # snd (snd (run_loop http_get llm (lp\<lparr>turn_count := turn_count lp + 1\<rparr>) inputs)))"
  using assms
  by (cases "tutor_reply http_get llm lp user_input False")
     (simp add: Let_def split: prod.splits)

lemma run_loop_failed_turn:
  assumes "strip (lower user_input) \<noteq> ''exit''"
    and "fst (tutor_reply http_get llm lp user_input False) = Inl e"
  shows "run_loop http_get llm lp (user_input # inputs) =
     (Inl e, lp, [snd (tutor_reply http_get llm lp user_input False)])"
  using assms
  by (cases "tutor_reply http_get llm lp user_input False") simp

lemma run_loop_cadence:
  assumes "\<forall>msgs. \<exists>r. llm msgs = Inr r"
    and "\<forall>u \<in> set inputs. strip (lower u) \<noteq> ''exit''"
    and "k < length inputs"
  shows "k < length (snd (snd (run_loop http_get llm lp (inputs @ rest))))
     \<and> WebFetch (skill_text lp @ '' '' @ inputs ! k)
         \<in> set (snd (snd (run_loop http_get llm lp (inputs @ rest))) ! k)
     \<and> (UpdateInfo \<in> set (snd (snd (run_loop http_get llm lp (inputs @ rest))) ! k)
         \<longleftrightarrow> (turn_count lp + int k + 1) mod 5 = 0)"
  using assms(2,3)
proof (induction inputs arbitrary: lp k)
  case Nil
  then show ?case by simp
next
  case (Cons u us)
  from assms(1) obtain r where r:
    "llm [SystemMessage (sys_prompt (skill_text lp)
            (fetch_web_context http_get (skill_text lp @ '' '' @ u))), HumanMessage u] = Inr r"
    by blast
  then have ok: "fst (tutor_reply http_get llm lp u False) = Inr (content r)"
    by (simp add: tutor_reply_result)
  from Cons.prems have ne: "strip (lower u) \<noteq> ''exit''" by simp
  note step = run_loop_turn [OF ne ok, of "us @ rest"]
  show ?case
  proof (cases k)
    case 0
    then show ?thesis
      using step by (simp add: tutor_reply_events)
  next
    case (Suc j)
    with Cons.prems have "\<forall>u \<in> set us. strip (lower u) \<noteq> ''exit''" and "j < length us"
      by simp_all
    from Cons.IH [OF this, of "lp\<lparr>turn_count := turn_count lp + 1\<rparr>"]
    show ?thesis
      using step Suc by (simp add: add.commute add.left_commute)
  qed
qed

lemma not_exit_ok: "strip (lower ''ok'') \<noteq> ''exit''"
  by code_simp

lemma not_exit_hello: "strip (lower ''hello'') \<noteq> ''exit''"
  by code_simp

lemma exit_exit: "strip (lower ''exit'') = ''exit''"
  by code_simp

text \<open>
  C6, as the spec states it, fails: in a session that starts at \<open>turn_count = 0\<close>, the
  first turn, after which \<open>turn_count\<close> is 1, fetches web context for the query
  \<open>python hello\<close>, although 1 is not a multiple of 5.
\<close>

theorem C6_counterexample:
  "WebFetch ''python hello''
     \<in> set (hd (snd (snd (run_loop page_get ok_llm python_platform [''hello'', ''exit'']))))
   \<and> turn_count (fst (snd (run_loop page_get ok_llm python_platform [''hello'', ''exit'']))) = 1
   \<and> (1::int) mod 5 \<noteq> 0"
proof -
  have ok: "fst (tutor_reply page_get ok_llm python_platform ''hello'' False)
              = Inr ''Good. Next question.''"
    by (simp add: tutor_reply_result ok_llm_def)
  show ?thesis
    using run_loop_turn [OF not_exit_hello ok, of "[''exit'']"]
    by (simp add: tutor_reply_events exit_exit skill_text_def python_platform_def)
qed

text \<open>
  C6 (amended): in a tutoring session web context is fetched on every turn, by
  \<open>tutor_reply\<close>, for the query made of the focus skill and the user's input. What
  happens exactly on the turns after which \<open>turn_count mod 5 = 0\<close>, and on no other
  turn, is the call of \<open>update_info\<close>: for inputs other than \<open>exit\<close> and a completion
  service that answers, turn \<open>k + 1\<close> of the loop fetches context, and calls
  \<open>update_info\<close> if and only if \<open>turn_count\<close>, incremented, is a multiple of 5.
\<close>

theorem C6_fetch_every_turn_notice_every_fifth:
  assumes "\<forall>msgs. \<exists>r. llm msgs = Inr r"
    and "\<forall>u \<in> set inputs. strip (lower u) \<noteq> ''exit''"
    and "k < length inputs"
  shows "WebFetch (skill_text lp @ '' '' @ inputs ! k)
           \<in> set (snd (snd (run_loop http_get llm lp (inputs @ rest))) ! k)
     \<and> (UpdateInfo \<in> set (snd (snd (run_loop http_get llm lp (inputs @ rest))) ! k)
         \<longleftrightarrow> (turn_count lp + int k + 1) mod 5 = 0)"
  using run_loop_cadence [OF assms] by simp

theorem C6_witness:
  "WebFetch ''python ok''
     \<in> set (snd (snd (run_loop page_get ok_llm python_platform (twelve_turns @ [''exit'']))) ! 4)
   \<and> UpdateInfo
     \<in> set (snd (snd (run_loop page_get ok_llm python_platform (twelve_turns @ [''exit'']))) ! 4)
   \<and> UpdateInfo
     \<notin> set (snd (snd (run_loop page_get ok_llm python_platform (twelve_turns @ [''exit'']))) ! 5)"
proof -
  have a: "\<forall>msgs. \<exists>r. ok_llm msgs = Inr r" by (simp add: ok_llm_def)
  have b: "\<forall>u \<in> set twelve_turns. strip (lower u) \<noteq> ''exit''"
    by (simp add: twelve_turns_def not_exit_ok)
  have c: "4 < length twelve_turns" and d: "5 < length twelve_turns"
    by (simp_all add: twelve_turns_def)
  have e: "twelve_turns ! 4 = ''ok''" by (simp add: twelve_turns_def)
  show ?thesis
    using C6_fetch_every_turn_notice_every_fifth [OF a b c, of python_platform page_get "[''exit'']"]
      C6_fetch_every_turn_notice_every_fifth [OF a b d, of python_platform page_get "[''exit'']"]
    by (simp add: e skill_text_def python_platform_def)
qed

text \<open>
  The session of twelve turns of the spec: \<open>update_info\<close> is called on the fifth and on
  the tenth turn only, while context is fetched on each of the twelve.
\<close>

lemma twelve_turn_session:
  "map (\<lambda>evs. UpdateInfo \<in> set evs)
     (snd (snd (run_loop page_get ok_llm python_platform (twelve_turns @ [''exit''])))) =
     [False, False, False, False, True, False, False, False, False, True, False, False, False]
   \<and> map (\<lambda>evs. WebFetch ''python ok'' \<in> set evs)
     (snd (snd (run_loop page_get ok_llm python_platform (twelve_turns @ [''exit''])))) =
     [True, True, True, True, True, True, True, True, True, True, True, True, False]"
  by code_simp


section \<open>Failures of the collaborators\<close>

lemma chat_agent_raises:
  assumes "chat_init t" and "attrs t = Some a"
    and "agent (make_config t a) [HumanMessage message] = Inl e"
  shows "chat clock json_dumps agent message t w =
           (Inl e, t, w\<lparr>trace := trace w @ [Completion [HumanMessage message]]\<rparr>)"
  using assms by (simp add: chat_def Let_def bind_exn_def)

lemma init_chat_agent_raises:
  assumes "attrs t = Some a"
    and "agent (make_config t a) (chat_history a @ [HumanMessage message]) = Inl e"
  shows "init_chat clock json_dumps agent message t w =
           (Inl e, t, w\<lparr>trace := trace w @ [Completion (chat_history a @ [HumanMessage message])]\<rparr>)"
  using assms by (simp add: init_chat_def Let_def bind_exn_def)

text \<open>
  C7: if the completion collaborator fails during a turn, the session after the failed
  turn is the session before it. Each of the four statements stands under its own
  hypotheses. For \<open>Teacher.chat\<close> (once \<open>chat_init\<close> is set) and for
  \<open>Teacher.init_chat\<close> (whether or not \<open>chat_init\<close> is set): when the agent raises
  on the messages of this call, the caller gets that error, the \<open>Teacher\<close> (and with
  it \<open>chat_history\<close> and \<open>chat_init\<close>) is unchanged, and the world differs only by
  the record of the attempted call, so \<open>history.json\<close> is unchanged. For
  \<open>LearningPlatform\<close>: when the completion raises, \<open>tutor_reply\<close> raises the same
  error, and the loop of \<open>run\<close> ends with it, the platform, with its \<open>turn_count\<close>,
  being unchanged.
\<close>

theorem C7_failed_completion_leaves_session_unchanged:
  "(chat_init t \<and> attrs t = Some a
      \<and> agent (make_config t a) [HumanMessage message] = Inl e
     \<longrightarrow> chat clock json_dumps agent message t w =
           (Inl e, t, w\<lparr>trace := trace w @ [Completion [HumanMessage message]]\<rparr>)
         \<and> history_json (snd (snd (chat clock json_dumps agent message t w))) = history_json w)
   \<and> (attrs t_i = Some a_i
      \<and> agent_i (make_config t_i a_i) (chat_history a_i @ [HumanMessage message_i]) = Inl e_i
     \<longrightarrow> init_chat clock json_dumps agent_i message_i t_i w_i =
           (Inl e_i, t_i,
            w_i\<lparr>trace := trace w_i @ [Completion (chat_history a_i @ [HumanMessage message_i])]\<rparr>)
         \<and> history_json (snd (snd (init_chat clock json_dumps agent_i message_i t_i w_i)))
             = history_json w_i)
   \<and> (llm [SystemMessage (sys_prompt (skill_text lp)
                (fetch_web_context http_get (skill_text lp @ '' '' @ user_input))),
              HumanMessage (if intro
                then ''Introduce '' @ skill_text lp @ '' and ask me a first warm-up question.''
                else user_input)] = Inl e_t
     \<longrightarrow> fst (tutor_reply http_get llm lp user_input intro) = Inl e_t)
   \<and> (strip (lower user_input') \<noteq> ''exit''
      \<and> llm' [SystemMessage (sys_prompt (skill_text lp')
                (fetch_web_context http_get' (skill_text lp' @ '' '' @ user_input'))),
              HumanMessage user_input'] = Inl e_l
     \<longrightarrow> run_loop http_get' llm' lp' (user_input' # inputs) =
           (Inl e_l, lp',
            [[WebFetch (skill_text lp' @ '' '' @ user_input'),
              Completion [SystemMessage (sys_prompt (skill_text lp')
                            (fetch_web_context http_get' (skill_text lp' @ '' '' @ user_input'))),
                          HumanMessage user_input']]]))"
proof (intro conjI impI)
  assume h: "chat_init t \<and> attrs t = Some a
      \<and> agent (make_config t a) [HumanMessage message] = Inl e"
  then have c: "chat clock json_dumps agent message t w =
      (Inl e, t, w\<lparr>trace := trace w @ [Completion [HumanMessage message]]\<rparr>)"
    using chat_agent_raises [where agent = agent and t = t and a = a and e = e] by blast
  show "chat clock json_dumps agent message t w =
      (Inl e, t, w\<lparr>trace := trace w @ [Completion [HumanMessage message]]\<rparr>)"
    by (rule c)
  show "history_json (snd (snd (chat clock json_dumps agent message t w))) = history_json w"
    by (simp add: c)
next
  assume h: "attrs t_i = Some a_i
      \<and> agent_i (make_config t_i a_i) (chat_history a_i @ [HumanMessage message_i]) = Inl e_i"
  then have c: "init_chat clock json_dumps agent_i message_i t_i w_i =
      (Inl e_i, t_i,
       w_i\<lparr>trace := trace w_i @ [Completion (chat_history a_i @ [HumanMessage message_i])]\<rparr>)"
    using init_chat_agent_raises [where agent = agent_i and t = t_i and a = a_i and e = e_i] by blast
  show "init_chat clock json_dumps agent_i message_i t_i w_i =
      (Inl e_i, t_i,
       w_i\<lparr>trace := trace w_i @ [Completion (chat_history a_i @ [HumanMessage message_i])]\<rparr>)"
    by (rule c)
  show "history_json (snd (snd (init_chat clock json_dumps agent_i message_i t_i w_i)))
          = history_json w_i"
    by (simp add: c)
next
  assume "llm [SystemMessage (sys_prompt (skill_text lp)
                (fetch_web_context http_get (skill_text lp @ '' '' @ user_input))),
              HumanMessage (if intro
                then ''Introduce '' @ skill_text lp @ '' and ask me a first warm-up question.''
                else user_input)] = Inl e_t"
  then show "fst (tutor_reply http_get llm lp user_input intro) = Inl e_t"
    by (simp add: tutor_reply_result)
next
  assume h: "strip (lower user_input') \<noteq> ''exit''
      \<and> llm' [SystemMessage (sys_prompt (skill_text lp')
                (fetch_web_context http_get' (skill_text lp' @ '' '' @ user_input'))),
              HumanMessage user_input'] = Inl e_l"
  then have f: "fst (tutor_reply http_get' llm' lp' user_input' False) = Inl e_l"
    by (simp add: tutor_reply_result)
  from h have ne: "strip (lower user_input') \<noteq> ''exit''" by simp
  show "run_loop http_get' llm' lp' (user_input' # inputs) =
           (Inl e_l, lp',
            [[WebFetch (skill_text lp' @ '' '' @ user_input'),
              Completion [SystemMessage (sys_prompt (skill_text lp')
                            (fetch_web_context http_get' (skill_text lp' @ '' '' @ user_input'))),
                          HumanMessage user_input']]])"
    using run_loop_failed_turn [OF ne f, of inputs] by (simp add: tutor_reply_events)
qed

theorem C7_witness:
  "chat noon compact_dumps down_agent ''Yes'' (ada_teacher True) old_world
     = (Inl (CollaboratorError ''ServiceUnavailable''), ada_teacher True,
        old_world\<lparr>trace := trace old_world @ [Completion [HumanMessage ''Yes'']]\<rparr>)
   \<and> init_chat noon compact_dumps down_agent ''Hi again'' (ada_teacher False) old_world
     = (Inl (CollaboratorError ''ServiceUnavailable''), ada_teacher False,
        old_world\<lparr>trace := trace old_world
           @ [Completion (chat_history ada_attrs @ [HumanMessage ''Hi again''])]\<rparr>)
   \<and> fst (tutor_reply page_get down_llm python_platform [] True)
     = Inl (CollaboratorError ''ServiceUnavailable'')
   \<and> fst (run_loop page_get down_llm python_platform [''hello'', ''exit''])
     = Inl (CollaboratorError ''ServiceUnavailable'')
   \<and> fst (snd (run_loop page_get down_llm python_platform [''hello'', ''exit'']))
     = python_platform
   \<and> turn_count python_platform = 0"
proof -
  have a: "attrs (ada_teacher True) = Some ada_attrs" and b: "chat_init (ada_teacher True)"
    and a_i: "attrs (ada_teacher False) = Some ada_attrs"
    by (simp_all add: ada_teacher_def)
  have c: "down_agent (make_config (ada_teacher True) ada_attrs) [HumanMessage ''Yes'']
             = Inl (CollaboratorError ''ServiceUnavailable'')"
    and d: "down_agent (make_config (ada_teacher False) ada_attrs)
              (chat_history ada_attrs @ [HumanMessage ''Hi again''])
             = Inl (CollaboratorError ''ServiceUnavailable'')"
    by (simp_all add: down_agent_def)
  have e: "down_llm [SystemMessage (sys_prompt (skill_text python_platform)
                (fetch_web_context page_get (skill_text python_platform @ '' '' @ ''hello''))),
              HumanMessage ''hello''] = Inl (CollaboratorError ''ServiceUnavailable'')"
    and i: "down_llm [SystemMessage (sys_prompt (skill_text python_platform)
                (fetch_web_context page_get (skill_text python_platform @ '' '' @ []))),
              HumanMessage (if True
                then ''Introduce '' @ skill_text python_platform
                     @ '' and ask me a first warm-up question.''
                else [])] = Inl (CollaboratorError ''ServiceUnavailable'')"
    by (simp_all add: down_llm_def)
  note main = C7_failed_completion_leaves_session_unchanged
      [where agent = down_agent and t = "ada_teacher True" and a = ada_attrs
         and message = "''Yes''" and e = "CollaboratorError ''ServiceUnavailable''"
         and agent_i = down_agent and t_i = "ada_teacher False" and a_i = ada_attrs
         and message_i = "''Hi again''" and e_i = "CollaboratorError ''ServiceUnavailable''"
         and llm = down_llm and lp = python_platform and http_get = page_get
         and user_input = "[]" and intro = True
         and e_t = "CollaboratorError ''ServiceUnavailable''"
         and llm' = down_llm and lp' = python_platform and http_get' = page_get
         and user_input' = "''hello''" and e_l = "CollaboratorError ''ServiceUnavailable''"
         and clock = noon and json_dumps = compact_dumps and w = old_world and w_i = old_world
         and inputs = "[''exit'']"]
  have t: "turn_count python_platform = 0" by (simp add: python_platform_def)
  from main a b c have 1: "chat noon compact_dumps down_agent ''Yes'' (ada_teacher True) old_world
     = (Inl (CollaboratorError ''ServiceUnavailable''), ada_teacher True,
        old_world\<lparr>trace := trace old_world @ [Completion [HumanMessage ''Yes'']]\<rparr>)"
    by blast
  from main a_i d have 2:
    "init_chat noon compact_dumps down_agent ''Hi again'' (ada_teacher False) old_world
     = (Inl (CollaboratorError ''ServiceUnavailable''), ada_teacher False,
        old_world\<lparr>trace := trace old_world
           @ [Completion (chat_history ada_attrs @ [HumanMessage ''Hi again''])]\<rparr>)"
    by blast
  from main i have 3: "fst (tutor_reply page_get down_llm python_platform [] True)
     = Inl (CollaboratorError ''ServiceUnavailable'')"
    by blast
  from main not_exit_hello e have 4:
    "run_loop page_get down_llm python_platform (''hello'' # [''exit'']) =
       (Inl (CollaboratorError ''ServiceUnavailable''), python_platform,
        [[WebFetch (skill_text python_platform @ '' '' @ ''hello''),
          Completion [SystemMessage (sys_prompt (skill_text python_platform)
                        (fetch_web_context page_get (skill_text python_platform @ '' '' @ ''hello''))),
                      HumanMessage ''hello'']]])"
    by blast
  from 1 2 3 4 t show ?thesis by simp
qed

text \<open>
  C8, as the spec states it, fails: \<open>history.json\<close> holds a committed session; during
  \<open>save_history\<close>, after the \<open>open\<close> and before the \<open>json.dump\<close>, the file is
  empty: this is neither the session committed last, nor the new one, nor a missing file.
\<close>

theorem C8_counterexample:
  "save_history_steps noon compact_dumps (ada_teacher True) (history_json old_world) =
     Inr [Some [], Some (render (history_data noon (ada_teacher True) ada_attrs))]
   \<and> Some [] \<noteq> history_json old_world
   \<and> Some [] \<noteq> Some (render (history_data noon (ada_teacher True) ada_attrs))
   \<and> Some [] \<noteq> (None :: string option)"
  by (simp add: save_history_steps_def ada_teacher_def open_w_def file_write_def compact_dumps_def
      old_world_def history_data_def)

text \<open>
  C8 (amended): \<open>save_history\<close> rewrites \<open>history.json\<close> in place, with no temporary
  file: opening the file empties it, whatever it held, and the serialised session is
  then written into it. A save that runs to its end leaves in the file exactly the
  serialisation of the current session; after the \<open>open\<close> and until the text is
  written, a reader finds the emptied file.
\<close>

theorem C8_save_history_overwrites_in_place:
  assumes "attrs t = Some a"
  shows "save_history_steps clock json_dumps t file =
           Inr [Some [], Some (json_dumps 4 (history_data clock t a))]
     \<and> save_history clock json_dumps t w =
           (Inr (), w\<lparr>history_json := Some (json_dumps 4 (history_data clock t a))\<rparr>)"
  using assms
  by (simp add: save_history_def save_history_steps_def open_w_def file_write_def Let_def)

theorem C8_witness:
  "save_history noon compact_dumps (ada_teacher True) old_world =
     (Inr (), old_world\<lparr>history_json :=
        Some (compact_dumps 4 (history_data noon (ada_teacher True) ada_attrs))\<rparr>)
   \<and> hd (projr (save_history_steps noon compact_dumps (ada_teacher True) (Some ''{old session}'')))
      = Some []"
proof -
  have a: "attrs (ada_teacher True) = Some ada_attrs" by (simp add: ada_teacher_def)
  show ?thesis
    using C8_save_history_overwrites_in_place [OF a, of noon compact_dumps "Some ''{old session}''" old_world]
    by simp
qed






end
